theory Spec2Isabelle
  imports Complex_Main
begin

section \<open>Numbers\<close>

text \<open>
  The program computes with JavaScript Numbers, binary64 floating point. Where the code
  only forms a value (a product, a sum, a quotient) and compares inputs, they are taken
  as exact rationals: the rounding in the last bit, the infinities and the overflow of
  very large values are outside the model. Where the code branches on a value it has
  computed itself (the balance test of a loan payment), the sum and the difference are
  rounded as the platform rounds them. Where the code can produce \<open>NaN\<close> from
  well-typed input (arithmetic on \<open>undefined\<close>), the result type says so.
\<close>

type_synonym number = rat

text \<open>The number of binary digits of a positive integer.\<close>

function bitLength :: "int \<Rightarrow> nat" where
  "bitLength n = (if n \<le> 0 then 0 else Suc (bitLength (n div 2)))"
  by pat_completeness auto
termination
  by (relation "measure nat") auto

declare bitLength.simps [simp del]

text \<open>The integer part of the binary logarithm of a positive rational.\<close>

definition floorLog2 :: "rat \<Rightarrow> int" where
  "floorLog2 a =
     (if 1 \<le> a then int (bitLength \<lfloor>a\<rfloor>) - 1
      else - int (bitLength (\<lceil>1 / a\<rceil> - 1)))"

definition pow2 :: "int \<Rightarrow> rat" where
  "pow2 k = (if 0 \<le> k then 2 ^ nat k else 1 / 2 ^ nat (- k))"

definition roundHalfEven :: "rat \<Rightarrow> int" where
  "roundHalfEven m =
     (let f = \<lfloor>m\<rfloor>; r = m - of_int f
      in if r < 1 / 2 then f
         else if 1 / 2 < r then f + 1
         else if even f then f else f + 1)"

text \<open>
  A rational rounded to binary64: to the nearest value with 53 significant bits, a tie
  going to the even significand, the exponent not below -1022 (so that the spacing
  below \<open>2 ^ -1022\<close> is \<open>2 ^ -1074\<close>). Results past the largest finite double
  are outside the model.
\<close>

definition roundDouble :: "rat \<Rightarrow> rat" where
  "roundDouble q =
     (if q = 0 then 0
      else (let a = \<bar>q\<bar>;
                e = max (floorLog2 a) (- 1022);
                quantum = pow2 (e - 52)
            in sgn q * of_int (roundHalfEven (a / quantum)) * quantum))"

text \<open>
  A rational stands for the Number nearest to it, as a decimal literal does. The Number
  operations \<open>a + b\<close> and \<open>a - b\<close> give the exact result on the two
  Numbers, rounded.
\<close>

definition doubleAdd :: "number \<Rightarrow> number \<Rightarrow> number" where
  "doubleAdd a b = roundDouble (roundDouble a + roundDouble b)"

definition doubleSub :: "number \<Rightarrow> number \<Rightarrow> number" where
  "doubleSub a b = roundDouble (roundDouble a - roundDouble b)"

section \<open>Loan model\<close>

text \<open>The object returned by \<open>Loan.calculateLoanDetails\<close>.\<close>

record loanDetails =
  capital :: number
  interest :: number
  serviceFee :: number
  initiationFee :: number
  totalRepayment :: number
  monthlyRepayment :: number
  termMonths :: number

text \<open>
  \<open>static calculateLoanDetails(amount, term = 3)\<close>: the default of the second
  parameter applies when the caller passes nothing (\<open>None\<close>).
\<close>

definition calculateLoanDetails :: "number \<Rightarrow> number option \<Rightarrow> loanDetails" where
  "calculateLoanDetails amount termArg =
     (let term = (case termArg of None \<Rightarrow> 3 | Some t \<Rightarrow> t);
          interest = amount * 0.045;
          serviceFee = 52.26;
          initiationFee = amount * 0.15;
          totalRepayment = amount + interest + serviceFee + initiationFee;
          monthlyRepayment = totalRepayment / term
      in \<lparr> capital = amount,
           interest = interest,
           serviceFee = serviceFee,
           initiationFee = initiationFee,
           totalRepayment = totalRepayment,
           monthlyRepayment = monthlyRepayment,
           termMonths = term \<rparr>)"

text \<open>
  The fields of class \<open>Loan\<close> that its methods read or write, with the identifying
  ones. \<open>status\<close> is a free string in the code (\<open>'pending'\<close>, \<open>'approved'\<close>,
  \<open>'rejected'\<close>, \<open>'paid'\<close> are the values the program writes).
\<close>

record loan =
  loanId :: string
  userId :: string
  amount :: number
  status :: string
  loanTotalRepayment :: number
  amountPaid :: number
  remainingBalance :: number

definition calculateRemainingBalance :: "loan \<Rightarrow> number" where
  "calculateRemainingBalance l = doubleSub (loanTotalRepayment l) (amountPaid l)"

text \<open>
  \<open>Loan.recordPayment(amount)\<close>: the mutation of \<open>this\<close> is returned. The test
  \<open>remainingBalance <= 0\<close> is made on the rounded difference of the rounded sum.
\<close>

definition recordPayment :: "loan \<Rightarrow> number \<Rightarrow> loan" where
  "recordPayment l payment =
     (let l1 = l\<lparr> amountPaid := doubleAdd (amountPaid l) payment \<rparr>;
          l2 = l1\<lparr> remainingBalance := calculateRemainingBalance l1 \<rparr>
      in if remainingBalance l2 \<le> 0
         then l2\<lparr> status := ''paid'', remainingBalance := 0 \<rparr>
         else l2)"

text \<open>
  A stored loan document: each field may be missing. \<open>Loan.fromFirestore(doc)\<close>
  builds the loan with the constructor's defaults: \<open>data.status || 'pending'\<close> (a
  missing or empty status reads as pending), \<open>data.userId || ''\<close> and \<open>|| 0\<close> on
  the numeric fields; the id is the document's.
\<close>

record loanDocument =
  docUserId :: "string option"
  docAmount :: "number option"
  docStatus :: "string option"
  docTotalRepayment :: "number option"
  docAmountPaid :: "number option"
  docRemainingBalance :: "number option"

definition fromFirestore :: "string \<Rightarrow> loanDocument \<Rightarrow> loan" where
  "fromFirestore lid d =
     \<lparr> loanId = lid,
       userId = (case docUserId d of None \<Rightarrow> [] | Some u \<Rightarrow> u),
       amount = (case docAmount d of None \<Rightarrow> 0 | Some v \<Rightarrow> v),
       status = (case docStatus d of
                   None \<Rightarrow> ''pending''
                 | Some s \<Rightarrow> if s = [] then ''pending'' else s),
       loanTotalRepayment = (case docTotalRepayment d of None \<Rightarrow> 0 | Some v \<Rightarrow> v),
       amountPaid = (case docAmountPaid d of None \<Rightarrow> 0 | Some v \<Rightarrow> v),
       remainingBalance = (case docRemainingBalance d of None \<Rightarrow> 0 | Some v \<Rightarrow> v) \<rparr>"

text \<open>
  \<open>LoanRepository.recordPayment(loanId, amount)\<close> over the collection of stored loans.
  The only exception the method raises itself is \<open>'Loan not found'\<close>; failures of the
  remote store are outside the model. \<open>BaseRepository.update(id, data)\<close> merges the
  given fields into the stored document: here \<open>amountPaid\<close>, \<open>remainingBalance\<close>
  and \<open>status\<close> of the loan just changed (the \<open>updatedAt\<close> stamp it adds is not
  among the modelled fields).
\<close>

datatype repositoryError = LoanNotFound

type_synonym loanCollection = "string \<rightharpoonup> loanDocument"

definition getLoanById :: "loanCollection \<Rightarrow> string \<Rightarrow> loan option" where
  "getLoanById coll lid =
     (case coll lid of
        None \<Rightarrow> None
      | Some d \<Rightarrow> Some (fromFirestore lid d))"

definition updatePayment :: "loanCollection \<Rightarrow> string \<Rightarrow> loan \<Rightarrow> loanCollection" where
  "updatePayment coll lid l =
     (case coll lid of
        None \<Rightarrow> coll
      | Some stored \<Rightarrow>
          coll(lid \<mapsto> stored\<lparr> docAmountPaid := Some (amountPaid l),
                                docRemainingBalance := Some (remainingBalance l),
                                docStatus := Some (status l) \<rparr>))"

definition repositoryRecordPayment ::
    "loanCollection \<Rightarrow> string \<Rightarrow> number \<Rightarrow> repositoryError + (loan \<times> loanCollection)" where
  "repositoryRecordPayment coll lid payment =
     (case getLoanById coll lid of
        None \<Rightarrow> Inl LoanNotFound
      | Some l \<Rightarrow>
          (let l' = recordPayment l payment
           in Inr (l', updatePayment coll lid l')))"

section \<open>Store discount\<close>

text \<open>The fields of class \<open>User\<close> that \<open>calculateDiscount\<close> reads.\<close>

record user =
  uid :: string
  savingsTotal :: number
  storeDiscount :: number
  funeralCover :: bool

definition calculateDiscount :: "user \<Rightarrow> number" where
  "calculateDiscount u =
     (if \<not> funeralCover u then
        (if savingsTotal u \<ge> 10000 then 25
         else if savingsTotal u \<ge> 5000 then 10
         else 0)
      else
        (if savingsTotal u \<ge> 10000 then 30
         else if savingsTotal u \<ge> 5000 then 20
         else 0))"

text \<open>The lookup tables of the specification, in its words.\<close>

definition discountPercentSpec :: "number \<Rightarrow> bool \<Rightarrow> number" where
  "discountPercentSpec savings hasFuneralCover =
     (if hasFuneralCover
      then (if savings \<ge> 10000 then 30 else if 5000 \<le> savings \<and> savings < 10000 then 20 else 0)
      else (if savings \<ge> 10000 then 25 else if 5000 \<le> savings \<and> savings < 10000 then 10 else 0))"

section \<open>Order totals\<close>

record cartItem =
  itemId :: string
  itemName :: string
  price :: number
  quantity :: number

definition getTotal :: "cartItem \<Rightarrow> number" where
  "getTotal item = price item * quantity item"

record orderTotals =
  subtotal :: number
  discount :: number
  total :: number

text \<open>
  \<open>static calculateTotals(items, discountPercent = 0)\<close>; \<open>reduce\<close> is a left fold
  from 0.
\<close>

definition calculateTotals :: "cartItem list \<Rightarrow> number option \<Rightarrow> orderTotals" where
  "calculateTotals items discountArg =
     (let discountPercent = (case discountArg of None \<Rightarrow> 0 | Some p \<Rightarrow> p);
          subtotal = foldl (\<lambda>sum item. sum + getTotal item) 0 items;
          discount = subtotal * (discountPercent / 100);
          total = subtotal - discount
      in \<lparr> subtotal = subtotal, discount = discount, total = total \<rparr>)"

section \<open>Funeral cover model\<close>

text \<open>
  The lookup tables are object literals, read with \<open>obj[key]\<close>. Such a read gives
  the object's own property when it has one; otherwise, for a key that names a member
  of \<open>Object.prototype\<close>, that inherited member (a function or an object: truthy,
  not a number, and with no \<open>price\<close> of its own); otherwise \<open>undefined\<close>.
\<close>

datatype 'a property = Own 'a | Inherited | Undefined

definition objectPrototypeKeys :: "string list" where
  "objectPrototypeKeys =
     [''constructor'', ''hasOwnProperty'', ''isPrototypeOf'', ''propertyIsEnumerable'',
      ''toLocaleString'', ''toString'', ''valueOf'', ''__proto__'',
      ''__defineGetter__'', ''__defineSetter__'', ''__lookupGetter__'', ''__lookupSetter__'']"

definition getProperty :: "(string \<times> 'a) list \<Rightarrow> string \<Rightarrow> 'a property" where
  "getProperty obj key =
     (case map_of obj key of
        Some v \<Rightarrow> Own v
      | None \<Rightarrow> if key \<in> set objectPrototypeKeys then Inherited else Undefined)"

text \<open>A Number that may be \<open>NaN\<close>; \<open>total += x\<close> where \<open>x\<close> may be \<open>undefined\<close>.\<close>

datatype jsNumber = Num number | NaN

fun addAssign :: "jsNumber \<Rightarrow> number option \<Rightarrow> jsNumber" where
  "addAssign (Num a) (Some b) = Num (a + b)"
| "addAssign (Num a) None = NaN"
| "addAssign NaN b = NaN"

record coverage =
  mainMember :: number
  spouse :: number
  children :: number
  extended :: number

record funeralPlan =
  planId :: string
  planName :: string
  planPrice :: number
  planCoverage :: coverage
  maxChildren :: nat
  maxExtended :: nat

definition BASIC :: funeralPlan where
  "BASIC = \<lparr> planId = ''basic'', planName = ''Basic Plan'', planPrice = 99,
       planCoverage = \<lparr> mainMember = 25000, spouse = 0, children = 0, extended = 0 \<rparr>,
       maxChildren = 0, maxExtended = 0 \<rparr>"

definition FAMILY :: funeralPlan where
  "FAMILY = \<lparr> planId = ''family'', planName = ''Family Plan'', planPrice = 199,
       planCoverage = \<lparr> mainMember = 50000, spouse = 50000, children = 15000, extended = 0 \<rparr>,
       maxChildren = 5, maxExtended = 0 \<rparr>"

definition EXTENDED :: funeralPlan where
  "EXTENDED = \<lparr> planId = ''extended'', planName = ''Extended Family Plan'', planPrice = 299,
       planCoverage = \<lparr> mainMember = 75000, spouse = 75000, children = 20000,
                        extended = 30000 \<rparr>,
       maxChildren = 5, maxExtended = 4 \<rparr>"

definition PLANS :: "funeralPlan list" where
  "PLANS = [BASIC, FAMILY, EXTENDED]"

definition WAITING_PERIODS :: "(string \<times> number) list" where
  "WAITING_PERIODS = [(''NATURAL_DEATH'', 6), (''ACCIDENTAL_DEATH'', 0), (''SUICIDE'', 24)]"

record benefit =
  benefitName :: string
  benefitPrice :: number

definition ADDITIONAL_BENEFITS :: "(string \<times> benefit) list" where
  "ADDITIONAL_BENEFITS =
     [(''CHAIRS'', \<lparr> benefitName = ''100 Chairs'', benefitPrice = 25 \<rparr>),
      (''TOILET'', \<lparr> benefitName = ''Mobile Toilet'', benefitPrice = 30 \<rparr>),
      (''FRIDGE'', \<lparr> benefitName = ''Mobile Fridge'', benefitPrice = 35 \<rparr>),
      (''DECORATION'', \<lparr> benefitName = ''Decoration'', benefitPrice = 65 \<rparr>),
      (''CATERING'', \<lparr> benefitName = ''Catering'', benefitPrice = 75 \<rparr>)]"

text \<open>\<open>Object.values(this.PLANS).find(p => p.id === planId)\<close>\<close>

definition getPlan :: "string \<Rightarrow> funeralPlan option" where
  "getPlan pid = find (\<lambda>p. planId p = pid) PLANS"

text \<open>
  \<open>static calculatePremium(planId, additionalBenefits = [])\<close>. The loop body adds
  \<open>benefit.price\<close> whenever \<open>benefit\<close> is truthy; for an inherited member that
  price is \<open>undefined\<close>.
\<close>

definition calculatePremium :: "string \<Rightarrow> string list option \<Rightarrow> jsNumber" where
  "calculatePremium pid additionalBenefitsArg =
     (let additionalBenefits = (case additionalBenefitsArg of None \<Rightarrow> [] | Some ks \<Rightarrow> ks)
      in case getPlan pid of
           None \<Rightarrow> Num 0
         | Some plan \<Rightarrow>
             foldl (\<lambda>total benefitKey.
                      case getProperty ADDITIONAL_BENEFITS benefitKey of
                        Own b \<Rightarrow> addAssign total (Some (benefitPrice b))
                      | Inherited \<Rightarrow> addAssign total None
                      | Undefined \<Rightarrow> total)
                   (Num (planPrice plan)) additionalBenefits)"

text \<open>
  A funeral cover membership. Its \<open>startDate\<close> (here \<open>memberStartDate\<close>) is a Date,
  seen through its time value (milliseconds since the epoch), which is all the code uses
  of it.
\<close>

record funeralCoverMembership =
  memberUserId :: string
  memberPlanId :: string
  active :: bool
  memberStartDate :: int
  monthlyPremium :: number

text \<open>\<open>getMonthsSinceStart()\<close>, with the clock reading \<open>new Date()\<close> as a parameter.\<close>

definition getMonthsSinceStart :: "funeralCoverMembership \<Rightarrow> int \<Rightarrow> int" where
  "getMonthsSinceStart m now =
     (let start = memberStartDate m;
          diffTime = \<bar>now - start\<bar>;
          diffMonths = \<lceil>(of_int diffTime :: number) / (1000 * 60 * 60 * 24 * 30)\<rceil>
      in diffMonths)"

text \<open>
  \<open>v || d\<close> on a looked-up waiting period: \<open>undefined\<close> and \<open>0\<close> are falsy, an
  inherited member is truthy.
\<close>

fun orDefault :: "number property \<Rightarrow> number \<Rightarrow> number property" where
  "orDefault (Own v) d = (if v = 0 then Own d else Own v)"
| "orDefault Inherited d = Inherited"
| "orDefault Undefined d = Own d"

text \<open>
  \<open>months >= v\<close>: a comparison with something that is not a number converts it to
  \<open>NaN\<close> and is false.
\<close>

fun greaterEq :: "int \<Rightarrow> number property \<Rightarrow> bool" where
  "greaterEq months (Own v) = (of_int months \<ge> v)"
| "greaterEq months Inherited = False"
| "greaterEq months Undefined = False"

definition hasWaitingPeriodPassed :: "funeralCoverMembership \<Rightarrow> string \<Rightarrow> int \<Rightarrow> bool" where
  "hasWaitingPeriodPassed m deathType now =
     (let monthsSinceStart = getMonthsSinceStart m now;
          waitingPeriod = orDefault (getProperty WAITING_PERIODS deathType) 6
      in greaterEq monthsSinceStart waitingPeriod)"

text \<open>
  The specification's reading of claim eligibility: whole 30-day months elapsed, rounded
  up, against its waiting-period table (the causes under the keys the code uses).
\<close>

definition waitingPeriodSpec :: "string \<Rightarrow> int" where
  "waitingPeriodSpec cause =
     (if cause = ''NATURAL_DEATH'' then 6
      else if cause = ''ACCIDENTAL_DEATH'' then 0
      else if cause = ''SUICIDE'' then 24
      else 6)"

definition msPerDay :: int where
  "msPerDay = 86400000"

definition isClaimEligibleSpec :: "int \<Rightarrow> string \<Rightarrow> int \<Rightarrow> bool" where
  "isClaimEligibleSpec start cause now =
     (\<lceil>((of_int (now - start) :: number) / of_int msPerDay) / 30\<rceil> \<ge> waitingPeriodSpec cause)"

text \<open>The sum the specification charges for an add-on key: its price when recognized.\<close>

definition recognizedPrice :: "string \<Rightarrow> number" where
  "recognizedPrice k =
     (case map_of ADDITIONAL_BENEFITS k of Some b \<Rightarrow> benefitPrice b | None \<Rightarrow> 0)"

section \<open>Dates\<close>

text \<open>
  Where the code reads or sets calendar fields, a Date is seen through its fields in
  local time: the year, the month index (0 is January), the day of the month and the
  milliseconds since local midnight. Local time is taken to be at a fixed offset from
  UTC (no daylight saving), and the range limit of time values is not modelled.
\<close>

record jsDate =
  year :: int
  month :: nat
  day :: nat
  msOfDay :: nat

definition isLeapYear :: "int \<Rightarrow> bool" where
  "isLeapYear y =
     (if y mod 400 = 0 then True else if y mod 100 = 0 then False else y mod 4 = 0)"

definition daysInMonth :: "int \<Rightarrow> nat \<Rightarrow> nat" where
  "daysInMonth y m =
     (if m = 1 then (if isLeapYear y then 29 else 28)
      else if m = 3 \<or> m = 5 \<or> m = 8 \<or> m = 10 then 30
      else 31)"

definition validDate :: "jsDate \<Rightarrow> bool" where
  "validDate d =
     (month d < 12 \<and> 1 \<le> day d \<and> day d \<le> daysInMonth (year d) (month d)
      \<and> int (msOfDay d) < msPerDay)"

text \<open>
  A day number past the end of its month runs on into the following months, as the
  platform's date arithmetic has it (day numbers from 1, the only ones the program
  produces).
\<close>

function rollDays :: "int \<Rightarrow> nat \<Rightarrow> nat \<Rightarrow> int \<times> nat \<times> nat" where
  "rollDays y m d =
     (if d > daysInMonth y m
      then (if m \<ge> 11 then rollDays (y + 1) 0 (d - daysInMonth y m)
            else rollDays y (m + 1) (d - daysInMonth y m))
      else (y, m, d))"
  by pat_completeness auto
termination
  by (relation "measure (\<lambda>(y, m, d). d)") (auto simp add: daysInMonth_def)

declare rollDays.simps [simp del]

text \<open>The date with the given fields, for a month index from 0 that may pass 11.\<close>

definition makeDate :: "int \<Rightarrow> nat \<Rightarrow> nat \<Rightarrow> nat \<Rightarrow> jsDate" where
  "makeDate y m d ms =
     (case rollDays (y + int (m div 12)) (m mod 12) d of
        (y', m', d') \<Rightarrow> \<lparr> year = y', month = m', day = d', msOfDay = ms \<rparr>)"

text \<open>
  \<open>new Date(year, monthIndex, day)\<close>: local midnight of that day; the constructor
  reads a year from 0 to 99 as 1900 + year.
\<close>

definition newDate :: "int \<Rightarrow> nat \<Rightarrow> nat \<Rightarrow> jsDate" where
  "newDate y m d = makeDate (if 0 \<le> y \<and> y \<le> 99 then 1900 + y else y) m d 0"

definition getFullYear :: "jsDate \<Rightarrow> int" where
  "getFullYear d = year d"

definition getMonth :: "jsDate \<Rightarrow> nat" where
  "getMonth d = month d"

definition setMonth :: "jsDate \<Rightarrow> nat \<Rightarrow> jsDate" where
  "setMonth d m = makeDate (year d) m (day d) (msOfDay d)"

fun nextDay :: "int \<times> nat \<times> nat \<Rightarrow> int \<times> nat \<times> nat" where
  "nextDay (y, m, d) =
     (if d < daysInMonth y m then (y, m, d + 1)
      else if m < 11 then (y, m + 1, 1)
      else (y + 1, 0, 1))"

fun prevDay :: "int \<times> nat \<times> nat \<Rightarrow> int \<times> nat \<times> nat" where
  "prevDay (y, m, d) =
     (if d > 1 then (y, m, d - 1)
      else if m > 0 then (y, m - 1, daysInMonth y (m - 1))
      else (y - 1, 11, 31))"

definition addDays :: "int \<Rightarrow> int \<times> nat \<times> nat \<Rightarrow> int \<times> nat \<times> nat" where
  "addDays k c = (if k \<ge> 0 then (nextDay ^^ nat k) c else (prevDay ^^ nat (- k)) c)"

text \<open>
  \<open>toISOString().split('T')[0]\<close>: the calendar date in UTC, as the text
  \<open>YYYY-MM-DD\<close>, held here by its three numbers (the month from 1). \<open>tz\<close> is the
  number of minutes local time is ahead of UTC.
\<close>

record isoDate =
  isoYear :: int
  isoMonth :: nat
  isoDay :: nat

definition toISODate :: "int \<Rightarrow> jsDate \<Rightarrow> isoDate" where
  "toISODate tz d =
     (let t = int (msOfDay d) - tz * 60000
      in case addDays (t div msPerDay) (year d, month d, day d) of
           (y, m, dd) \<Rightarrow> \<lparr> isoYear = y, isoMonth = m + 1, isoDay = dd \<rparr>)"

section \<open>Stokvel model\<close>

record stokvelTypeConfig =
  configName :: string
  configType :: string
  durationMonths :: nat
  description :: string
  payoutMonth :: "nat option"
  allowsEarlyWithdrawal :: bool

definition JANUARY :: stokvelTypeConfig where
  "JANUARY = \<lparr> configName = ''January Stokvel'', configType = ''January'',
       durationMonths = 10,
       description = ''Save for 10 months, receive payout in January'',
       payoutMonth = Some 1, allowsEarlyWithdrawal = False \<rparr>"

definition GROCERY :: stokvelTypeConfig where
  "GROCERY = \<lparr> configName = ''Grocery Stokvel'', configType = ''Grocery'',
       durationMonths = 10,
       description = ''Save for groceries during October/November specials'',
       payoutMonth = Some 10, allowsEarlyWithdrawal = False \<rparr>"

definition PLANNING :: stokvelTypeConfig where
  "PLANNING = \<lparr> configName = ''Planning Ahead Stokvel'', configType = ''Planning'',
       durationMonths = 10,
       description = ''Flexible stokvel for emergencies and savings'',
       payoutMonth = None, allowsEarlyWithdrawal = True \<rparr>"

record stokvelDates =
  startDate :: jsDate
  endDate :: jsDate

text \<open>
  \<open>calculateStokvelDates(typeConfig)\<close>, with the clock as a parameter: the readings
  of \<open>new Date()\<close> within one call are taken to be the same instant \<open>now\<close>.
\<close>

definition calculateStokvelDates :: "stokvelTypeConfig \<Rightarrow> jsDate \<Rightarrow> stokvelDates" where
  "calculateStokvelDates typeConfig now =
     (let today = now
      in if configType typeConfig = ''January''
         then \<lparr> startDate = newDate (getFullYear today) 1 1,
                endDate = newDate (getFullYear today) 11 1 \<rparr>
         else if configType typeConfig = ''Grocery''
         then \<lparr> startDate = newDate (getFullYear today) 0 1,
                endDate = newDate (getFullYear today) 9 1 \<rparr>
         else \<lparr> startDate = now,
                endDate = setMonth now (getMonth now + 10) \<rparr>)"

definition calculateNextContributionDate :: "jsDate \<Rightarrow> int \<Rightarrow> isoDate" where
  "calculateNextContributionDate now tz =
     (let nextDate = setMonth now (getMonth now + 1)
      in toISODate tz nextDate)"

record stokvelMembership =
  membershipId :: string
  membershipName :: string
  membershipType :: string
  balance :: number
  monthlyContribution :: number
  nextContributionDate :: "isoDate option"
  contributionsCount :: number
  membershipStatus :: string
  projectedPayout :: number
  joinedAt :: jsDate

text \<open>\<open>StokvelMembership.recordContribution(amount)\<close>, with the clock and the zone.\<close>

definition recordContribution ::
    "stokvelMembership \<Rightarrow> number \<Rightarrow> jsDate \<Rightarrow> int \<Rightarrow> stokvelMembership" where
  "recordContribution m amt now tz =
     (let m1 = m\<lparr> balance := balance m + amt \<rparr>;
          m2 = m1\<lparr> contributionsCount := contributionsCount m1 + 1 \<rparr>;
          nextDate = setMonth now (getMonth now + 1)
      in m2\<lparr> nextContributionDate := Some (toISODate tz nextDate) \<rparr>)"

text \<open>
  The specification's words: a date plus \<open>n\<close> calendar months is the same day of the
  month and time of day, \<open>n\<close> months on in the calendar; a date with no time component
  is its year, month and day.
\<close>

definition plusCalendarMonths :: "nat \<Rightarrow> jsDate \<Rightarrow> jsDate" where
  "plusCalendarMonths n d =
     d\<lparr> year := year d + int ((month d + n) div 12), month := (month d + n) mod 12 \<rparr>"

definition datePart :: "jsDate \<Rightarrow> isoDate" where
  "datePart d = \<lparr> isoYear = year d, isoMonth = month d + 1, isoDay = day d \<rparr>"

section \<open>Properties of the loan calculator\<close>

text \<open>
  Claim C2. For every principal and every term in {1, 2, 3} the loan quote has
  interest = principal * 0.045, serviceFee = 52.26, initiationFee = principal * 0.15,
  totalRepayment = principal + interest + serviceFee + initiationFee and
  monthlyRepayment = totalRepayment / term, each the plain value of that expression
  with no rounding step applied to it.
\<close>

theorem calculateLoanDetails_quote:
  assumes "t \<in> {1, 2, 3}"
  shows "interest (calculateLoanDetails p (Some t)) = p * 0.045
       \<and> serviceFee (calculateLoanDetails p (Some t)) = 52.26
       \<and> initiationFee (calculateLoanDetails p (Some t)) = p * 0.15
       \<and> totalRepayment (calculateLoanDetails p (Some t))
           = p + interest (calculateLoanDetails p (Some t))
               + serviceFee (calculateLoanDetails p (Some t))
               + initiationFee (calculateLoanDetails p (Some t))
       \<and> monthlyRepayment (calculateLoanDetails p (Some t))
           = totalRepayment (calculateLoanDetails p (Some t)) / t
       \<and> capital (calculateLoanDetails p (Some t)) = p
       \<and> termMonths (calculateLoanDetails p (Some t)) = t"
proof -
  from assms have "t \<noteq> 0" by auto
  then show ?thesis
    by (simp add: calculateLoanDetails_def Let_def)
qed

theorem calculateLoanDetails_quote_witness:
  "(2::number) \<in> {1, 2, 3}
   \<and> interest (calculateLoanDetails 1000 (Some 2)) = 45
   \<and> serviceFee (calculateLoanDetails 1000 (Some 2)) = 52.26
   \<and> initiationFee (calculateLoanDetails 1000 (Some 2)) = 150
   \<and> totalRepayment (calculateLoanDetails 1000 (Some 2)) = 1247.26
   \<and> monthlyRepayment (calculateLoanDetails 1000 (Some 2)) = 623.63"
proof -
  have h: "(2::number) \<in> {1, 2, 3}" by simp
  show ?thesis
    using calculateLoanDetails_quote [OF h, of 1000] by simp
qed

subsection \<open>Rounding to binary64\<close>

text \<open>
  The exponent is the right one, rounding keeps the sign and the order, and a rounded
  value rounds to itself.
\<close>

lemma pow2_powi: "pow2 k = 2 powi k"
  by (simp add: pow2_def power_int_def inverse_eq_divide power_divide)

lemma pow2_pos: "0 < pow2 k"
  by (simp add: pow2_powi zero_less_power_int)



































subsection \<open>Payments\<close>


lemma recordPayment_amountPaid:
  "amountPaid (recordPayment l payment) = doubleAdd (amountPaid l) payment"
  by (simp add: recordPayment_def calculateRemainingBalance_def Let_def)

lemma recordPayment_remainingBalance:
  "remainingBalance (recordPayment l payment)
     = max 0 (doubleSub (loanTotalRepayment l) (doubleAdd (amountPaid l) payment))"
  by (simp add: recordPayment_def calculateRemainingBalance_def Let_def max_def)

lemma recordPayment_status:
  "status (recordPayment l payment)
     = (if doubleSub (loanTotalRepayment l) (doubleAdd (amountPaid l) payment) \<le> 0
        then ''paid'' else status l)"
  by (simp add: recordPayment_def calculateRemainingBalance_def Let_def)

text \<open>
  Two instalments that add up to the total in decimal need not do so as Numbers: after
  1229.84, a payment of 614.92 on a loan of 1844.76 leaves amountPaid one step below the
  total (1844.7599999999998), the balance at \<open>2 ^ -42\<close> (2.27e-13) and the status
  as it was.
\<close>

lemma recordPayment_rounded_instalment:
  "amountPaid (recordPayment \<lparr> loanId = ''L3'', userId = ''u1'', amount = 1500,
         status = ''approved'', loanTotalRepayment = 1844.76,
         amountPaid = 1229.84, remainingBalance = 614.92 \<rparr> 614.92)
     = roundDouble 1844.76 - pow2 (- 42)
   \<and> remainingBalance (recordPayment \<lparr> loanId = ''L3'', userId = ''u1'', amount = 1500,
         status = ''approved'', loanTotalRepayment = 1844.76,
         amountPaid = 1229.84, remainingBalance = 614.92 \<rparr> 614.92) = pow2 (- 42)
   \<and> status (recordPayment \<lparr> loanId = ''L3'', userId = ''u1'', amount = 1500,
         status = ''approved'', loanTotalRepayment = 1844.76,
         amountPaid = 1229.84, remainingBalance = 614.92 \<rparr> 614.92) = ''approved''"
proof -
  let ?l = "\<lparr> loanId = ''L3'', userId = ''u1'', amount = 1500,
         status = ''approved'', loanTotalRepayment = 1844.76,
         amountPaid = 1229.84, remainingBalance = 614.92 \<rparr>"
  have a: "doubleAdd 1229.84 614.92 = roundDouble 1844.76 - pow2 (- 42)"
    by code_simp
  have b: "doubleSub 1844.76 (roundDouble 1844.76 - pow2 (- 42)) = pow2 (- 42)"
    by code_simp
  have c: "\<not> pow2 (- 42) \<le> (0::rat)"
    using pow2_pos [of "- 42"] by simp
  have p: "amountPaid (recordPayment ?l 614.92) = roundDouble 1844.76 - pow2 (- 42)"
    by (simp only: recordPayment_amountPaid loan.select_convs a)
  have "remainingBalance (recordPayment ?l 614.92) = max 0 (pow2 (- 42))"
    by (simp only: recordPayment_remainingBalance loan.select_convs a b)
  also have "\<dots> = pow2 (- 42)"
    using pow2_pos [of "- 42"] by (simp only: max_def less_imp_le if_True)
  finally have r: "remainingBalance (recordPayment ?l 614.92) = pow2 (- 42)" .
  have s: "status (recordPayment ?l 614.92) = ''approved''"
    using c by (simp only: recordPayment_status loan.select_convs a b if_False)
  from p r s show ?thesis by blast
qed



text \<open>
  Claim C4, as the code has it. \<open>recordPayment\<close> checks neither the amount nor the
  loan's status. For every amount (zero and negative ones too) and every stored loan,
  whatever its status, the payment is accepted and applied: the loan is read with the
  constructor's defaults, amountPaid becomes amountPaid + amount, the balance is
  recomputed as totalRepayment - amountPaid, and when that is at most 0 the balance is
  set to 0 and the status to paid; the three fields are written back to the stored
  document and the loan is returned. The one rejection is \<open>Loan not found\<close> for an
  unknown loan id, which returns no new collection.
\<close>

theorem repositoryRecordPayment_accepts:
  "(coll lid = None \<longrightarrow> repositoryRecordPayment coll lid payment = Inl LoanNotFound)
   \<and> (coll lid = Some d \<longrightarrow>
        (let paid0 = (case docAmountPaid d of None \<Rightarrow> 0 | Some v \<Rightarrow> v);
             total0 = (case docTotalRepayment d of None \<Rightarrow> 0 | Some v \<Rightarrow> v);
             status0 = (case docStatus d of
                          None \<Rightarrow> ''pending''
                        | Some s \<Rightarrow> if s = [] then ''pending'' else s);
             paid = doubleAdd paid0 payment;
             rest = doubleSub total0 paid;
             balance1 = (if rest \<le> 0 then 0 else rest);
             status1 = (if rest \<le> 0 then ''paid'' else status0)
         in repositoryRecordPayment coll lid payment
              = Inr (\<lparr> loanId = lid,
                       userId = (case docUserId d of None \<Rightarrow> [] | Some u \<Rightarrow> u),
                       amount = (case docAmount d of None \<Rightarrow> 0 | Some v \<Rightarrow> v),
                       status = status1,
                       loanTotalRepayment = total0,
                       amountPaid = paid,
                       remainingBalance = balance1 \<rparr>,
                     coll(lid \<mapsto> d\<lparr> docAmountPaid := Some paid,
                                      docRemainingBalance := Some balance1,
                                      docStatus := Some status1 \<rparr>))))"
  by (simp add: repositoryRecordPayment_def getLoanById_def fromFirestore_def
      recordPayment_def calculateRemainingBalance_def updatePayment_def Let_def)

theorem repositoryRecordPayment_accepts_witness:
  "repositoryRecordPayment Map.empty ''L1'' 0 = Inl LoanNotFound
   \<and> amountPaid (fst (projr (repositoryRecordPayment
        [''L1'' \<mapsto> \<lparr> docUserId = Some ''u1'', docAmount = Some 1000,
           docStatus = Some ''approved'', docTotalRepayment = Some 1247.26,
           docAmountPaid = Some 200, docRemainingBalance = Some 1047.26 \<rparr>]
        ''L1'' (- 100)))) = 100
   \<and> status (fst (projr (repositoryRecordPayment
        [''L1'' \<mapsto> \<lparr> docUserId = Some ''u1'', docAmount = Some 1000,
           docStatus = Some ''rejected'', docTotalRepayment = Some 1247.26,
           docAmountPaid = None, docRemainingBalance = None \<rparr>]
        ''L1'' 1247.26))) = ''paid''"
proof -
  let ?d1 = "\<lparr> docUserId = Some ''u1'', docAmount = Some 1000,
           docStatus = Some ''approved'', docTotalRepayment = Some 1247.26,
           docAmountPaid = Some 200, docRemainingBalance = Some 1047.26 \<rparr>"
  let ?d2 = "\<lparr> docUserId = Some ''u1'', docAmount = Some 1000,
           docStatus = Some ''rejected'', docTotalRepayment = Some 1247.26,
           docAmountPaid = None, docRemainingBalance = None \<rparr>"
  have a: "doubleAdd 200 (- 100) = 100" by code_simp
  have b: "doubleSub 1247.26 (doubleAdd 0 1247.26) = 0"
    by code_simp
  have e: "repositoryRecordPayment Map.empty ''L1'' 0 = Inl LoanNotFound"
    using repositoryRecordPayment_accepts [of Map.empty "''L1''" 0] by simp
  have p: "amountPaid (fst (projr (repositoryRecordPayment [''L1'' \<mapsto> ?d1] ''L1'' (- 100))))
             = 100"
    using repositoryRecordPayment_accepts [of "[''L1'' \<mapsto> ?d1]" "''L1''" "- 100" ?d1] a
    by (simp add: Let_def)
  have s: "status (fst (projr (repositoryRecordPayment [''L1'' \<mapsto> ?d2] ''L1''
             1247.26))) = ''paid''"
    using repositoryRecordPayment_accepts [of "[''L1'' \<mapsto> ?d2]" "''L1''"
        "1247.26" ?d2] b
    by (simp add: Let_def)
  from e p s show ?thesis by blast
qed

text \<open>
  The claim as stated fails: a payment of 0 on an approved loan is accepted, a negative
  payment on an approved loan is accepted and lowers amountPaid, and a payment on a
  pending loan is accepted and changes the loan.
\<close>

theorem repositoryRecordPayment_rejects_counterexample:
  "\<not> isl (repositoryRecordPayment
        [''L1'' \<mapsto> \<lparr> docUserId = Some ''u1'', docAmount = Some 1000,
           docStatus = Some ''approved'', docTotalRepayment = Some 1247.26,
           docAmountPaid = Some 200, docRemainingBalance = Some 1047.26 \<rparr>]
        ''L1'' 0)
   \<and> \<not> isl (repositoryRecordPayment
        [''L1'' \<mapsto> \<lparr> docUserId = Some ''u1'', docAmount = Some 1000,
           docStatus = Some ''approved'', docTotalRepayment = Some 1247.26,
           docAmountPaid = Some 200, docRemainingBalance = Some 1047.26 \<rparr>]
        ''L1'' (- 100))
   \<and> amountPaid (fst (projr (repositoryRecordPayment
        [''L1'' \<mapsto> \<lparr> docUserId = Some ''u1'', docAmount = Some 1000,
           docStatus = Some ''approved'', docTotalRepayment = Some 1247.26,
           docAmountPaid = Some 200, docRemainingBalance = Some 1047.26 \<rparr>]
        ''L1'' (- 100)))) = 100
   \<and> \<not> isl (repositoryRecordPayment
        [''L2'' \<mapsto> \<lparr> docUserId = Some ''u1'', docAmount = Some 1000,
           docStatus = Some ''pending'', docTotalRepayment = Some 1247.26,
           docAmountPaid = Some 0, docRemainingBalance = Some 0 \<rparr>]
        ''L2'' 500)
   \<and> amountPaid (fst (projr (repositoryRecordPayment
        [''L2'' \<mapsto> \<lparr> docUserId = Some ''u1'', docAmount = Some 1000,
           docStatus = Some ''pending'', docTotalRepayment = Some 1247.26,
           docAmountPaid = Some 0, docRemainingBalance = Some 0 \<rparr>]
        ''L2'' 500))) = 500"
proof -
  have a: "doubleAdd 200 (- 100) = 100" by code_simp
  have b: "doubleAdd 0 500 = 500" by code_simp
  show ?thesis
    by (simp add: repositoryRecordPayment_def getLoanById_def fromFirestore_def Let_def
        recordPayment_amountPaid a b)
qed

section \<open>Properties of the discount and order engines\<close>

text \<open>
  Claim C5. \<open>calculateDiscount\<close> is the lookup table of the specification, for
  every savings value and either funeral-cover flag: without cover 25 from 10000,
  10 from 5000 up to 10000, else 0; with cover 30, 20 and 0 on the same ranges.
\<close>

theorem calculateDiscount_table:
  "calculateDiscount u = discountPercentSpec (savingsTotal u) (funeralCover u)"
  by (simp add: calculateDiscount_def discountPercentSpec_def)

lemma foldl_getTotal:
  "foldl (\<lambda>sum item. sum + getTotal item) a items
     = a + (\<Sum>item\<leftarrow>items. price item * quantity item)"
  by (induction items arbitrary: a) (simp_all add: getTotal_def add.assoc)

lemma subtotal_nonneg:
  assumes "\<forall>item\<in>set items. quantity item \<ge> 1 \<and> price item \<ge> 0"
  shows "0 \<le> (\<Sum>item\<leftarrow>items. price item * quantity item)"
proof (rule sum_list_nonneg)
  fix x assume "x \<in> set (map (\<lambda>item. price item * quantity item) items)"
  then obtain item where "item \<in> set items" and x: "x = price item * quantity item"
    by auto
  with assms have "0 \<le> price item" and "0 \<le> quantity item" by force+
  then show "0 \<le> x" unfolding x by (rule mult_nonneg_nonneg)
qed

text \<open>
  Claim C6. For every list of cart items and every discount percentage,
  \<open>calculateTotals\<close> returns subtotal = the sum of unitPrice * quantity,
  discount = subtotal * discountPercent / 100 and total = subtotal - discount; and when
  every item has quantity at least 1 and a price of at least 0 and the percentage lies
  in [0, 100], the total is at least 0.
\<close>

theorem calculateTotals_correct:
  "subtotal (calculateTotals items (Some dp)) = (\<Sum>item\<leftarrow>items. price item * quantity item)
   \<and> discount (calculateTotals items (Some dp))
       = subtotal (calculateTotals items (Some dp)) * dp / 100
   \<and> total (calculateTotals items (Some dp))
       = subtotal (calculateTotals items (Some dp)) - discount (calculateTotals items (Some dp))
   \<and> ((\<forall>item\<in>set items. quantity item \<ge> 1 \<and> price item \<ge> 0) \<and> 0 \<le> dp \<and> dp \<le> 100
        \<longrightarrow> 0 \<le> total (calculateTotals items (Some dp)))"
proof -
  let ?s = "\<Sum>item\<leftarrow>items. price item * quantity item"
  have sub: "subtotal (calculateTotals items (Some dp)) = ?s"
    by (simp add: calculateTotals_def Let_def foldl_getTotal)
  have dis: "discount (calculateTotals items (Some dp)) = ?s * dp / 100"
    by (simp add: calculateTotals_def Let_def foldl_getTotal)
  have tot: "total (calculateTotals items (Some dp)) = ?s - ?s * dp / 100"
    by (simp add: calculateTotals_def Let_def foldl_getTotal)
  have nonneg: "0 \<le> ?s - ?s * dp / 100"
    if valid: "\<forall>item\<in>set items. quantity item \<ge> 1 \<and> price item \<ge> 0"
      and lo: "0 \<le> dp" and hi: "dp \<le> 100"
  proof -
    have s0: "0 \<le> ?s" using valid by (rule subtotal_nonneg)
    have "?s * dp \<le> ?s * 100" using hi s0 by (rule mult_left_mono)
    then have "?s * dp / 100 \<le> ?s" by simp
    then show ?thesis by simp
  qed
  show ?thesis
    using sub dis tot nonneg by simp
qed

theorem calculateTotals_correct_witness:
  "subtotal (calculateTotals
      [\<lparr> itemId = ''a'', itemName = ''A'', price = 100, quantity = 2 \<rparr>,
       \<lparr> itemId = ''b'', itemName = ''B'', price = 50, quantity = 1 \<rparr>] (Some 10)) = 250
   \<and> discount (calculateTotals
      [\<lparr> itemId = ''a'', itemName = ''A'', price = 100, quantity = 2 \<rparr>,
       \<lparr> itemId = ''b'', itemName = ''B'', price = 50, quantity = 1 \<rparr>] (Some 10)) = 25
   \<and> total (calculateTotals
      [\<lparr> itemId = ''a'', itemName = ''A'', price = 100, quantity = 2 \<rparr>,
       \<lparr> itemId = ''b'', itemName = ''B'', price = 50, quantity = 1 \<rparr>] (Some 10)) = 225
   \<and> 0 \<le> total (calculateTotals
      [\<lparr> itemId = ''a'', itemName = ''A'', price = 100, quantity = 2 \<rparr>,
       \<lparr> itemId = ''b'', itemName = ''B'', price = 50, quantity = 1 \<rparr>] (Some 10))"
  using calculateTotals_correct [of
      "[\<lparr> itemId = ''a'', itemName = ''A'', price = 100, quantity = 2 \<rparr>,
        \<lparr> itemId = ''b'', itemName = ''B'', price = 50, quantity = 1 \<rparr>]" 10]
  by simp

section \<open>Properties of the funeral cover engine\<close>

lemma getMonthsSinceStart_eq:
  "getMonthsSinceStart m now = \<lceil>(of_int \<bar>now - memberStartDate m\<bar> :: number) / 2592000000\<rceil>"
  by (simp add: getMonthsSinceStart_def Let_def)

lemma waitingPeriod_natural:
  "orDefault (getProperty WAITING_PERIODS ''NATURAL_DEATH'') 6 = Own 6"
  by (simp add: getProperty_def WAITING_PERIODS_def)

lemma waitingPeriod_accidental:
  "orDefault (getProperty WAITING_PERIODS ''ACCIDENTAL_DEATH'') 6 = Own 6"
  by (simp add: getProperty_def WAITING_PERIODS_def)

lemma waitingPeriod_suicide:
  "orDefault (getProperty WAITING_PERIODS ''SUICIDE'') 6 = Own 24"
  by (simp add: getProperty_def WAITING_PERIODS_def)

lemma waitingPeriod_unknown:
  assumes "k \<notin> {''NATURAL_DEATH'', ''ACCIDENTAL_DEATH'', ''SUICIDE''}"
    and "k \<notin> set objectPrototypeKeys"
  shows "orDefault (getProperty WAITING_PERIODS k) 6 = Own 6"
  using assms by (simp add: getProperty_def WAITING_PERIODS_def)

text \<open>
  For an accidental death the table's 0 is falsy, so the default of 6 months replaces
  it: the code asks for 6 elapsed months.
\<close>

lemma hasWaitingPeriodPassed_accidental:
  "hasWaitingPeriodPassed m ''ACCIDENTAL_DEATH'' now \<longleftrightarrow> 6 \<le> getMonthsSinceStart m now"
  unfolding hasWaitingPeriodPassed_def Let_def waitingPeriod_accidental by simp

text \<open>
  For the other causes, and a membership that has started, the code agrees with the
  specification's reading.
\<close>

lemma hasWaitingPeriodPassed_other_causes:
  assumes "memberStartDate m \<le> now" and "cause \<noteq> ''ACCIDENTAL_DEATH''"
    and "cause \<notin> set objectPrototypeKeys"
  shows "hasWaitingPeriodPassed m cause now
           \<longleftrightarrow> isClaimEligibleSpec (memberStartDate m) cause now"
proof -
  have months: "getMonthsSinceStart m now
      = \<lceil>((of_int (now - memberStartDate m) :: number) / of_int msPerDay) / 30\<rceil>"
    using assms(1) by (simp add: getMonthsSinceStart_eq msPerDay_def)
  consider "cause = ''NATURAL_DEATH''" | "cause = ''SUICIDE''"
    | "cause \<notin> {''NATURAL_DEATH'', ''ACCIDENTAL_DEATH'', ''SUICIDE''}"
    using assms(2) by blast
  then show ?thesis
  proof cases
    case 1
    then show ?thesis
      unfolding hasWaitingPeriodPassed_def Let_def isClaimEligibleSpec_def months [symmetric]
      by (simp add: waitingPeriod_natural waitingPeriodSpec_def)
  next
    case 2
    then show ?thesis
      unfolding hasWaitingPeriodPassed_def Let_def isClaimEligibleSpec_def months [symmetric]
      by (simp add: waitingPeriod_suicide waitingPeriodSpec_def)
  next
    case 3
    then have "orDefault (getProperty WAITING_PERIODS cause) 6 = Own 6"
      using assms(3) by (rule waitingPeriod_unknown)
    moreover from 3 have "waitingPeriodSpec cause = 6"
      by (simp add: waitingPeriodSpec_def)
    ultimately show ?thesis
      unfolding hasWaitingPeriodPassed_def Let_def isClaimEligibleSpec_def months [symmetric]
      by simp
  qed
qed

text \<open>
  Claim C1 at an accidental death one day after the cover started: one month has
  elapsed by the 30-day rule, the specification's table (0 months, immediately
  eligible) makes the claim eligible, and \<open>hasWaitingPeriodPassed\<close> answers no.
\<close>

theorem hasWaitingPeriodPassed_accidental_one_day:
  "getMonthsSinceStart \<lparr> memberUserId = ''u1'', memberPlanId = ''basic'', active = True,
        memberStartDate = 1700000000000, monthlyPremium = 99 \<rparr> 1700086400000 = 1
   \<and> \<not> hasWaitingPeriodPassed \<lparr> memberUserId = ''u1'', memberPlanId = ''basic'',
        active = True, memberStartDate = 1700000000000, monthlyPremium = 99 \<rparr>
        ''ACCIDENTAL_DEATH'' 1700086400000
   \<and> isClaimEligibleSpec 1700000000000 ''ACCIDENTAL_DEATH'' 1700086400000"
  by (simp add: hasWaitingPeriodPassed_accidental getMonthsSinceStart_eq ceiling_eq_iff
      isClaimEligibleSpec_def waitingPeriodSpec_def msPerDay_def)

text \<open>
  Claim C10. \<open>getMonthsSinceStart\<close> is the ceiling of the absolute difference between
  now and the start date over 30 days. So for a start date in the future the figure is
  positive and grows with the distance into the future, and whenever the start date lies
  more than 180 days after now, \<open>hasWaitingPeriodPassed\<close> is true for a natural death
  although the cover has not started.
\<close>

theorem getMonthsSinceStart_future_start:
  "getMonthsSinceStart m now
     = \<lceil>(of_int \<bar>now - memberStartDate m\<bar> :: number) / of_int (30 * msPerDay)\<rceil>
   \<and> (now < memberStartDate m \<longrightarrow> 0 < getMonthsSinceStart m now)
   \<and> (now < memberStartDate m \<and> memberStartDate m \<le> memberStartDate m'
        \<longrightarrow> getMonthsSinceStart m now \<le> getMonthsSinceStart m' now)
   \<and> (memberStartDate m - now > 180 * msPerDay
        \<longrightarrow> hasWaitingPeriodPassed m ''NATURAL_DEATH'' now)"
proof -
  have a: "getMonthsSinceStart m now
      = \<lceil>(of_int \<bar>now - memberStartDate m\<bar> :: number) / of_int (30 * msPerDay)\<rceil>"
    by (simp add: getMonthsSinceStart_eq msPerDay_def)
  have b: "0 < getMonthsSinceStart m now" if "now < memberStartDate m"
    using that by (simp add: getMonthsSinceStart_eq)
  have c: "getMonthsSinceStart m now \<le> getMonthsSinceStart m' now"
    if "now < memberStartDate m" and "memberStartDate m \<le> memberStartDate m'"
  proof -
    from that have "\<bar>now - memberStartDate m\<bar> \<le> \<bar>now - memberStartDate m'\<bar>"
      by simp
    then have "(of_int \<bar>now - memberStartDate m\<bar> :: number) / 2592000000
               \<le> of_int \<bar>now - memberStartDate m'\<bar> / 2592000000"
      by (simp add: divide_right_mono)
    then show ?thesis
      unfolding getMonthsSinceStart_eq by (rule ceiling_mono)
  qed
  have d: "hasWaitingPeriodPassed m ''NATURAL_DEATH'' now"
    if "memberStartDate m - now > 180 * msPerDay"
  proof -
    from that have "\<bar>now - memberStartDate m\<bar> > 15552000000"
      by (simp add: msPerDay_def)
    then have "(of_int \<bar>now - memberStartDate m\<bar> :: number) > 15552000000"
      by (metis of_int_less_iff of_int_numeral)
    then have "(5::number) < of_int \<bar>now - memberStartDate m\<bar> / 2592000000"
      by simp
    then have "6 \<le> getMonthsSinceStart m now"
      unfolding getMonthsSinceStart_eq by (simp add: le_ceiling_iff)
    then show ?thesis
      unfolding hasWaitingPeriodPassed_def Let_def waitingPeriod_natural by simp
  qed
  show ?thesis using a b c d by blast
qed

theorem getMonthsSinceStart_future_start_witness:
  "(1700000000000::int) < 1715638400000
   \<and> 1715638400000 - 1700000000000 > 180 * msPerDay
   \<and> getMonthsSinceStart \<lparr> memberUserId = ''u1'', memberPlanId = ''basic'', active = True,
        memberStartDate = 1715638400000, monthlyPremium = 99 \<rparr> 1700000000000 = 7
   \<and> hasWaitingPeriodPassed \<lparr> memberUserId = ''u1'', memberPlanId = ''basic'', active = True,
        memberStartDate = 1715638400000, monthlyPremium = 99 \<rparr>
        ''NATURAL_DEATH'' 1700000000000"
  using getMonthsSinceStart_future_start [of
      "\<lparr> memberUserId = ''u1'', memberPlanId = ''basic'', active = True,
         memberStartDate = 1715638400000, monthlyPremium = 99 \<rparr>" 1700000000000]
  by (simp add: msPerDay_def ceiling_eq_iff)

lemma getPlan_cases:
  "getPlan pid = (if pid = ''basic'' then Some BASIC else if pid = ''family'' then Some FAMILY
                  else if pid = ''extended'' then Some EXTENDED else None)"
  by (simp add: getPlan_def PLANS_def BASIC_def FAMILY_def EXTENDED_def)

lemma premium_fold:
  assumes "\<forall>k\<in>set ks. k \<notin> set objectPrototypeKeys"
  shows "foldl (\<lambda>total benefitKey.
                      case getProperty ADDITIONAL_BENEFITS benefitKey of
                        Own b \<Rightarrow> addAssign total (Some (benefitPrice b))
                      | Inherited \<Rightarrow> addAssign total None
                      | Undefined \<Rightarrow> total) (Num a) ks
         = Num (a + (\<Sum>k\<leftarrow>ks. recognizedPrice k))"
  using assms
proof (induction ks arbitrary: a)
  case Nil
  then show ?case by simp
next
  case (Cons k ks)
  then have k: "k \<notin> set objectPrototypeKeys"
    and ks: "\<forall>k\<in>set ks. k \<notin> set objectPrototypeKeys"
    by simp_all
  show ?case
  proof (cases "map_of ADDITIONAL_BENEFITS k")
    case None
    with k have "getProperty ADDITIONAL_BENEFITS k = Undefined"
      by (simp add: getProperty_def)
    with None Cons.IH [OF ks] show ?thesis
      by (simp add: recognizedPrice_def)
  next
    case (Some b)
    then have "getProperty ADDITIONAL_BENEFITS k = Own b"
      by (simp add: getProperty_def)
    with Some Cons.IH [OF ks] show ?thesis
      by (simp add: recognizedPrice_def add.assoc)
  qed
qed

text \<open>
  Away from the names of \<open>Object.prototype\<close> the premium is the plan's price plus the
  prices of the recognized keys, and an unknown plan gives 0.
\<close>

lemma calculatePremium_recognized:
  assumes "getPlan pid = Some plan" and "\<forall>k\<in>set ks. k \<notin> set objectPrototypeKeys"
  shows "calculatePremium pid (Some ks)
           = Num (planPrice plan + (\<Sum>k\<leftarrow>ks. recognizedPrice k))"
  using assms by (simp add: calculatePremium_def premium_fold)

lemma calculatePremium_unknown_plan:
  assumes "getPlan pid = None"
  shows "calculatePremium pid ks = Num 0"
  using assms by (simp add: calculatePremium_def)

text \<open>
  Claim C9 at an add-on key that is not recognized but names a member of
  \<open>Object.prototype\<close>: the key is not ignored, the premium is \<open>NaN\<close>. A key that
  names nothing (\<open>chairs\<close> in lower case) is ignored as the claim says.
\<close>

theorem calculatePremium_inherited_key:
  "calculatePremium ''basic'' (Some [''toString'']) = NaN
   \<and> calculatePremium ''basic'' (Some [''CHAIRS'', ''constructor'']) = NaN
   \<and> calculatePremium ''basic'' (Some [''CHAIRS'', ''chairs'']) = Num 124"
  by (simp add: calculatePremium_def getPlan_cases BASIC_def getProperty_def
      ADDITIONAL_BENEFITS_def objectPrototypeKeys_def)

section \<open>Properties of the stokvel engine\<close>

lemma daysInMonth_ge_28: "28 \<le> daysInMonth y m"
  by (simp add: daysInMonth_def)

lemma rollDays_valid: "d \<le> daysInMonth y m \<Longrightarrow> rollDays y m d = (y, m, d)"
  by (subst rollDays.simps) simp

lemma rollDays_over:
  "daysInMonth y m < d \<Longrightarrow>
     rollDays y m d = (if m \<ge> 11 then rollDays (y + 1) 0 (d - daysInMonth y m)
                       else rollDays y (m + 1) (d - daysInMonth y m))"
  by (subst rollDays.simps) simp

lemma makeDate_valid:
  assumes "d \<le> daysInMonth (y + int (m div 12)) (m mod 12)"
  shows "makeDate y m d ms
           = \<lparr> year = y + int (m div 12), month = m mod 12, day = d, msOfDay = ms \<rparr>"
  using assms by (simp add: makeDate_def rollDays_valid)

lemma newDate_first:
  assumes "y < 0 \<or> 99 < y" and "m < 12"
  shows "newDate y m 1 = \<lparr> year = y, month = m, day = 1, msOfDay = 0 \<rparr>"
proof -
  have "1 \<le> daysInMonth (y + int (m div 12)) (m mod 12)"
    using daysInMonth_ge_28 [of "y + int (m div 12)" "m mod 12"] by linarith
  then have "makeDate y m 1 0
      = \<lparr> year = y + int (m div 12), month = m mod 12, day = 1, msOfDay = 0 \<rparr>"
    by (rule makeDate_valid)
  with assms show ?thesis by (auto simp add: newDate_def)
qed

lemma setMonth_valid:
  assumes "day d \<le> daysInMonth (year d + int (m div 12)) (m mod 12)"
  shows "setMonth d m = d\<lparr> year := year d + int (m div 12), month := m mod 12 \<rparr>"
  using assms by (simp add: setMonth_def makeDate_valid)

lemma toISODate_same_day:
  assumes "0 \<le> int (msOfDay d) - tz * 60000" and "int (msOfDay d) - tz * 60000 < msPerDay"
  shows "toISODate tz d = datePart d"
proof -
  from assms have "(int (msOfDay d) - tz * 60000) div msPerDay = 0"
    by (simp add: msPerDay_def)
  then show ?thesis
    by (simp add: toISODate_def Let_def addDays_def datePart_def)
qed

text \<open>
  Claim C7, as the code has it. For a clock reading \<open>now\<close> whose year is not one of
  0 to 99: the January type gives local midnight of February 1 and of December 1 of
  now's year, the Grocery type January 1 and October 1; the Planning type gives
  startDate = now and, whenever now's day of the month exists in the month 10 calendar
  months on (always when it is at most 28), endDate = that same day and time of day
  in that month.
\<close>

theorem calculateStokvelDates_by_type:
  assumes "validDate now" and "year now < 0 \<or> 99 < year now"
  shows "(configType cfg = ''January'' \<longrightarrow>
            calculateStokvelDates cfg now
              = \<lparr> startDate = \<lparr> year = year now, month = 1, day = 1, msOfDay = 0 \<rparr>,
                  endDate = \<lparr> year = year now, month = 11, day = 1, msOfDay = 0 \<rparr> \<rparr>)
       \<and> (configType cfg = ''Grocery'' \<longrightarrow>
            calculateStokvelDates cfg now
              = \<lparr> startDate = \<lparr> year = year now, month = 0, day = 1, msOfDay = 0 \<rparr>,
                  endDate = \<lparr> year = year now, month = 9, day = 1, msOfDay = 0 \<rparr> \<rparr>)
       \<and> (configType cfg = ''Planning'' \<longrightarrow>
            startDate (calculateStokvelDates cfg now) = now
            \<and> (day now \<le> daysInMonth (year now + int ((month now + 10) div 12))
                                        ((month now + 10) mod 12)
                 \<longrightarrow> endDate (calculateStokvelDates cfg now) = plusCalendarMonths 10 now)
            \<and> (day now \<le> 28
                 \<longrightarrow> endDate (calculateStokvelDates cfg now) = plusCalendarMonths 10 now))"
proof -
  have jan: "calculateStokvelDates cfg now
              = \<lparr> startDate = \<lparr> year = year now, month = 1, day = 1, msOfDay = 0 \<rparr>,
                  endDate = \<lparr> year = year now, month = 11, day = 1, msOfDay = 0 \<rparr> \<rparr>"
    if "configType cfg = ''January''"
    using that newDate_first [OF assms(2), of 1] newDate_first [OF assms(2), of 11]
    by (simp add: calculateStokvelDates_def getFullYear_def)
  have gro: "calculateStokvelDates cfg now
              = \<lparr> startDate = \<lparr> year = year now, month = 0, day = 1, msOfDay = 0 \<rparr>,
                  endDate = \<lparr> year = year now, month = 9, day = 1, msOfDay = 0 \<rparr> \<rparr>"
    if "configType cfg = ''Grocery''"
    using that newDate_first [OF assms(2), of 0] newDate_first [OF assms(2), of 9]
    by (simp add: calculateStokvelDates_def getFullYear_def)
  have pl1: "startDate (calculateStokvelDates cfg now) = now"
    if "configType cfg = ''Planning''"
    using that by (simp add: calculateStokvelDates_def)
  have pl2: "endDate (calculateStokvelDates cfg now) = plusCalendarMonths 10 now"
    if "configType cfg = ''Planning''"
      and "day now \<le> daysInMonth (year now + int ((month now + 10) div 12))
                                  ((month now + 10) mod 12)"
    using that
    by (simp add: calculateStokvelDates_def getMonth_def setMonth_valid plusCalendarMonths_def)
  have pl3: "endDate (calculateStokvelDates cfg now) = plusCalendarMonths 10 now"
    if "configType cfg = ''Planning''" and "day now \<le> 28"
  proof -
    have "day now \<le> daysInMonth (year now + int ((month now + 10) div 12))
                                 ((month now + 10) mod 12)"
      using that(2) daysInMonth_ge_28 [of "year now + int ((month now + 10) div 12)"
          "(month now + 10) mod 12"]
      by linarith
    with that(1) show ?thesis by (rule pl2)
  qed
  show ?thesis using jan gro pl1 pl2 pl3 by blast
qed

theorem calculateStokvelDates_by_type_witness:
  "validDate \<lparr> year = 2025, month = 5, day = 15, msOfDay = 36000000 \<rparr>
   \<and> calculateStokvelDates JANUARY \<lparr> year = 2025, month = 5, day = 15, msOfDay = 36000000 \<rparr>
       = \<lparr> startDate = \<lparr> year = 2025, month = 1, day = 1, msOfDay = 0 \<rparr>,
           endDate = \<lparr> year = 2025, month = 11, day = 1, msOfDay = 0 \<rparr> \<rparr>
   \<and> calculateStokvelDates GROCERY \<lparr> year = 2025, month = 5, day = 15, msOfDay = 36000000 \<rparr>
       = \<lparr> startDate = \<lparr> year = 2025, month = 0, day = 1, msOfDay = 0 \<rparr>,
           endDate = \<lparr> year = 2025, month = 9, day = 1, msOfDay = 0 \<rparr> \<rparr>
   \<and> calculateStokvelDates PLANNING \<lparr> year = 2025, month = 5, day = 15, msOfDay = 36000000 \<rparr>
       = \<lparr> startDate = \<lparr> year = 2025, month = 5, day = 15, msOfDay = 36000000 \<rparr>,
           endDate = \<lparr> year = 2026, month = 3, day = 15, msOfDay = 36000000 \<rparr> \<rparr>"
proof -
  let ?n = "\<lparr> year = 2025, month = 5, day = 15, msOfDay = 36000000 \<rparr>"
  have v: "validDate ?n"
    by (simp add: validDate_def daysInMonth_def msPerDay_def)
  have y: "year ?n < 0 \<or> 99 < year ?n" by simp
  have p: "plusCalendarMonths 10 ?n
             = \<lparr> year = 2026, month = 3, day = 15, msOfDay = 36000000 \<rparr>"
    by (simp add: plusCalendarMonths_def)
  show ?thesis
    using v calculateStokvelDates_by_type [OF v y, of JANUARY]
      calculateStokvelDates_by_type [OF v y, of GROCERY]
      calculateStokvelDates_by_type [OF v y, of PLANNING] p
    by (simp add: JANUARY_def GROCERY_def PLANNING_def stokvelDates.equality)
qed

text \<open>
  The claim as stated fails for the Planning type at the end of a month: from 30 April
  2025 the end date is 2 March 2026, which is not a day of the month 10 calendar months
  on (February 2026). And for a clock in the year 50 the January start date is in 1950.
\<close>

theorem calculateStokvelDates_planning_counterexample:
  "endDate (calculateStokvelDates PLANNING
        \<lparr> year = 2025, month = 3, day = 30, msOfDay = 43200000 \<rparr>)
     = \<lparr> year = 2026, month = 2, day = 2, msOfDay = 43200000 \<rparr>
   \<and> endDate (calculateStokvelDates PLANNING
        \<lparr> year = 2025, month = 3, day = 30, msOfDay = 43200000 \<rparr>)
     \<noteq> plusCalendarMonths 10 \<lparr> year = 2025, month = 3, day = 30, msOfDay = 43200000 \<rparr>
   \<and> month (plusCalendarMonths 10 \<lparr> year = 2025, month = 3, day = 30, msOfDay = 43200000 \<rparr>)
     = 1
   \<and> startDate (calculateStokvelDates JANUARY
        \<lparr> year = 50, month = 3, day = 30, msOfDay = 43200000 \<rparr>)
     = \<lparr> year = 1950, month = 1, day = 1, msOfDay = 0 \<rparr>"
  by (simp add: calculateStokvelDates_def PLANNING_def JANUARY_def getMonth_def getFullYear_def
      setMonth_def newDate_def makeDate_def rollDays_over rollDays_valid daysInMonth_def
      isLeapYear_def plusCalendarMonths_def)

lemma calculateNextContributionDate_regular:
  assumes "day now \<le> daysInMonth (year now + int ((month now + 1) div 12))
                                   ((month now + 1) mod 12)"
    and "0 \<le> int (msOfDay now) - tz * 60000" and "int (msOfDay now) - tz * 60000 < msPerDay"
  shows "calculateNextContributionDate now tz = datePart (plusCalendarMonths 1 now)"
proof -
  have "setMonth now (getMonth now + 1) = plusCalendarMonths 1 now"
    using assms(1) by (simp add: getMonth_def setMonth_valid plusCalendarMonths_def)
  moreover have "toISODate tz (plusCalendarMonths 1 now) = datePart (plusCalendarMonths 1 now)"
    using assms(2,3) by (intro toISODate_same_day) (simp_all add: plusCalendarMonths_def)
  ultimately show ?thesis
    by (simp add: calculateNextContributionDate_def Let_def)
qed

lemma recordContribution_fields:
  "recordContribution m amt now tz
     = m\<lparr> balance := balance m + amt,
          contributionsCount := contributionsCount m + 1,
          nextContributionDate := Some (calculateNextContributionDate now tz) \<rparr>"
  by (simp add: recordContribution_def calculateNextContributionDate_def Let_def)

text \<open>
  What \<open>recordContribution\<close> does to the other fields, for every amount: the balance
  grows by the amount, the count by 1, the next contribution date comes from the clock
  alone, never from the previous due date, and the rest is unchanged.
\<close>

lemma recordContribution_frame:
  "balance (recordContribution m amt now tz) = balance m + amt
   \<and> contributionsCount (recordContribution m amt now tz) = contributionsCount m + 1
   \<and> nextContributionDate (recordContribution m amt now tz)
       = Some (calculateNextContributionDate now tz)
   \<and> nextContributionDate (recordContribution (m\<lparr> nextContributionDate := due \<rparr>) amt now tz)
       = nextContributionDate (recordContribution m amt now tz)
   \<and> membershipId (recordContribution m amt now tz) = membershipId m
   \<and> membershipName (recordContribution m amt now tz) = membershipName m
   \<and> membershipType (recordContribution m amt now tz) = membershipType m
   \<and> monthlyContribution (recordContribution m amt now tz) = monthlyContribution m
   \<and> membershipStatus (recordContribution m amt now tz) = membershipStatus m
   \<and> projectedPayout (recordContribution m amt now tz) = projectedPayout m
   \<and> joinedAt (recordContribution m amt now tz) = joinedAt m"
  by (simp add: recordContribution_fields)

text \<open>
  At noon on 31 January 2025 in UTC the recorded date is 3 March 2025: a day that the
  next month lacks runs on into the month after.
\<close>

lemma recordContribution_month_end:
  "calculateNextContributionDate \<lparr> year = 2025, month = 0, day = 31, msOfDay = 43200000 \<rparr> 0
     = \<lparr> isoYear = 2025, isoMonth = 3, isoDay = 3 \<rparr>"
  by (simp add: calculateNextContributionDate_def getMonth_def
      setMonth_def makeDate_def rollDays_over rollDays_valid daysInMonth_def isLeapYear_def
      toISODate_def addDays_def msPerDay_def Let_def)

text \<open>
  Claim C8 at a contribution of 500 made at half past midnight on 1 March 2025, local
  time two hours ahead of UTC. The balance and the count are updated as the claim says,
  but the recorded next contribution date is 31 March 2025: not 1 April, which is
  today plus one calendar month, and not 28 March either, one calendar month after the
  UTC date of that instant (28 February).
\<close>

theorem recordContribution_near_midnight:
  "nextContributionDate (recordContribution
       \<lparr> membershipId = ''s1'', membershipName = ''Planning Ahead Stokvel'',
         membershipType = ''Planning'', balance = 0, monthlyContribution = 500,
         nextContributionDate = None, contributionsCount = 0, membershipStatus = ''active'',
         projectedPayout = 5000,
         joinedAt = \<lparr> year = 2025, month = 0, day = 10, msOfDay = 0 \<rparr> \<rparr>
       500 \<lparr> year = 2025, month = 2, day = 1, msOfDay = 1800000 \<rparr> 120)
     = Some \<lparr> isoYear = 2025, isoMonth = 3, isoDay = 31 \<rparr>
   \<and> datePart (plusCalendarMonths 1 \<lparr> year = 2025, month = 2, day = 1, msOfDay = 1800000 \<rparr>)
     = \<lparr> isoYear = 2025, isoMonth = 4, isoDay = 1 \<rparr>
   \<and> toISODate 120 \<lparr> year = 2025, month = 2, day = 1, msOfDay = 1800000 \<rparr>
     = \<lparr> isoYear = 2025, isoMonth = 2, isoDay = 28 \<rparr>
   \<and> balance (recordContribution
       \<lparr> membershipId = ''s1'', membershipName = ''Planning Ahead Stokvel'',
         membershipType = ''Planning'', balance = 0, monthlyContribution = 500,
         nextContributionDate = None, contributionsCount = 0, membershipStatus = ''active'',
         projectedPayout = 5000,
         joinedAt = \<lparr> year = 2025, month = 0, day = 10, msOfDay = 0 \<rparr> \<rparr>
       500 \<lparr> year = 2025, month = 2, day = 1, msOfDay = 1800000 \<rparr> 120) = 500
   \<and> contributionsCount (recordContribution
       \<lparr> membershipId = ''s1'', membershipName = ''Planning Ahead Stokvel'',
         membershipType = ''Planning'', balance = 0, monthlyContribution = 500,
         nextContributionDate = None, contributionsCount = 0, membershipStatus = ''active'',
         projectedPayout = 5000,
         joinedAt = \<lparr> year = 2025, month = 0, day = 10, msOfDay = 0 \<rparr> \<rparr>
       500 \<lparr> year = 2025, month = 2, day = 1, msOfDay = 1800000 \<rparr> 120) = 1"
  by (simp add: recordContribution_fields calculateNextContributionDate_def getMonth_def
      setMonth_def makeDate_def rollDays_over rollDays_valid daysInMonth_def isLeapYear_def
      toISODate_def addDays_def msPerDay_def plusCalendarMonths_def datePart_def Let_def)

end
